theory Spec2Isabelle
  imports Complex_Main "HOL-Library.Log_Nat" "HOL-Library.Multiset" "HOL-Library.Word"
begin

section \<open>Collaborator types of expression/expression.go\<close>

text \<open>
  The file \<^verbatim>\<open>expression/expression.go\<close> uses types of other packages
  (\<^verbatim>\<open>model.CIStr\<close>, \<^verbatim>\<open>types.Datum\<close>, \<^verbatim>\<open>types.FieldType\<close>, \<^verbatim>\<open>ast.ResultField\<close>) and of
  other files of its own package (\<^verbatim>\<open>Column\<close>, \<^verbatim>\<open>ScalarFunction\<close>, \<^verbatim>\<open>Schema\<close>). Their
  declarations are not part of the source; each is modelled with the fields and methods that
  \<^verbatim>\<open>expression.go\<close> itself names. Methods whose behaviour the spec leaves open
  (\<^verbatim>\<open>CompareDatum\<close>, \<^verbatim>\<open>ToBool\<close>, \<^verbatim>\<open>GetIndex\<close>, the \<^verbatim>\<open>Eval\<close> of Column and ScalarFunction)
  are parameters of the functions that call them.
\<close>

text \<open>
  Modelled from the spec: \<^verbatim>\<open>model.CIStr\<close>, a name with its "lower-cased" form. The source
  reads the field \<^verbatim>\<open>L\<close>, the lower-case form; the original spelling is the field \<^verbatim>\<open>O\<close> of
  the Go struct, named \<open>O'\<close> here.
\<close>

record CIStr =
  O' :: string
  L :: string

text \<open>
  Modelled from the spec: the lower-case form of a string. It maps the ASCII letters A-Z to
  a-z and leaves every other byte as it is.
\<close>

definition ToLower :: "string \<Rightarrow> string" where
  "ToLower s =
     map (\<lambda>c. let n = (of_char c :: nat) in if 65 \<le> n \<and> n \<le> 90 then char_of (n + 32) else c) s"

text \<open>
  Modelled from the spec: \<^verbatim>\<open>model.NewCIStr\<close>, which makes the name of a new ScalarFunction; the
  spec says a ScalarFunction "holds a lower-cased function name".
\<close>

definition NewCIStr :: "string \<Rightarrow> CIStr" where
  "NewCIStr s = \<lparr>O' = s, L = ToLower s\<rparr>"

text \<open>
  Modelled from the spec: \<^verbatim>\<open>ast.AndAnd\<close>, a constant of package ast, "a lowercase canonical
  spelling for operator names equivalent to SQL AND/OR".
\<close>

definition AndAnd :: string where
  "AndAnd = ''and''"

text \<open>Modelled from the spec: \<^verbatim>\<open>ast.OrOr\<close>, the same for OR.\<close>

definition OrOr :: string where
  "OrOr = ''or''"

text \<open>
  Modelled from the spec: \<^verbatim>\<open>types.Datum\<close> is "a tagged scalar value type with null
  representation"; its zero value \<^verbatim>\<open>types.Datum{}\<close> is the null datum. Two more tags stand
  for the non-null values.
\<close>

datatype datum = KindNull | KindInt64 int | KindString string

text \<open>Modelled from the spec: \<^verbatim>\<open>Datum.IsNull\<close>, the null test.\<close>

definition IsNull :: "datum \<Rightarrow> bool" where
  "IsNull d = (d = KindNull)"

text \<open>
  Modelled from the spec: the type codes of package mysql; the source names
  \<^verbatim>\<open>mysql.TypeTiny\<close> only.
\<close>

datatype mysql_type = TypeTiny | TypeCode nat

text \<open>
  Modelled from the spec: \<^verbatim>\<open>types.FieldType\<close>, "a field-type descriptor usable as a declared
  type"; only its type code is kept.
\<close>

record FieldType =
  Tp :: mysql_type

type_synonym addr = nat

text \<open>
  A value of type \<^verbatim>\<open>*types.FieldType\<close>: the nil pointer, the descriptor allocated by
  \<^verbatim>\<open>types.NewFieldType(tp)\<close>, or the address \<^verbatim>\<open>&ci.FieldType\<close> of the descriptor embedded in
  the \<^verbatim>\<open>model.ColumnInfo\<close> object at address \<open>ci\<close>.
\<close>

datatype field_type_ptr = NilFieldType | NewFieldType mysql_type | FieldTypeOf addr

text \<open>
  Modelled from the spec: \<^verbatim>\<open>model.TableInfo\<close>, the table of a result field, with the field the
  source reads (the "table name").
\<close>

record TableInfo =
  Name :: CIStr

text \<open>
  Modelled from the spec: \<^verbatim>\<open>model.ColumnInfo\<close>, the "underlying column" of a result field,
  with the fields the source reads: its "own name" and its "type descriptor".
\<close>

record ColumnInfo =
  Name :: CIStr
  FieldType :: FieldType

text \<open>
  Modelled from the spec: \<^verbatim>\<open>ast.ResultField\<close>, an "external result-field descriptor", with
  the fields the source reads. \<^verbatim>\<open>Column\<close> is a pointer to a ColumnInfo object in the store (\<open>None\<close> is
  nil), because the schema shares that object's type descriptor; \<^verbatim>\<open>Table\<close> is a pointer whose
  target is only read (\<open>None\<close> is nil).
\<close>

record ResultField =
  Column :: "addr option"
  ColumnAsName :: CIStr
  Table :: "TableInfo option"
  TableAsName :: CIStr
  DBName :: CIStr

type_synonym column_store = "addr \<rightharpoonup> ColumnInfo"

text \<open>Reading a type descriptor through a pointer, in a given store of ColumnInfo objects.\<close>

fun load_type :: "column_store \<Rightarrow> field_type_ptr \<Rightarrow> FieldType option" where
  "load_type h NilFieldType = None"
| "load_type h (NewFieldType tp) = Some \<lparr>Tp = tp\<rparr>"
| "load_type h (FieldTypeOf a) = map_option ColumnInfo.FieldType (h a)"

section \<open>Expressions\<close>

text \<open>The struct \<^verbatim>\<open>Constant\<close> of the source.\<close>

record Constant =
  Value :: datum
  RetType :: field_type_ptr

text \<open>
  Modelled from the spec: the struct \<^verbatim>\<open>Column\<close>, declared in another file of the package; it
  "holds identifying names (database/table/column), a declared type, and a resolved position".
  These are the fields that \<^verbatim>\<open>ResultFieldsToSchema\<close> sets.
\<close>

record Column =
  ColName :: CIStr
  TblName :: CIStr
  DBName :: CIStr
  RetType :: field_type_ptr
  Position :: int

text \<open>
  A value of the interface type \<^verbatim>\<open>Expression\<close>: the nil interface value or a pointer to one of
  the three variants. The struct \<^verbatim>\<open>ScalarFunction\<close> is declared in another file of the package
  and modelled from the spec ("holds a lower-cased function name and an ordered sequence of
  argument expressions") with the fields \<^verbatim>\<open>FuncName\<close> and \<^verbatim>\<open>Args\<close> that the source reads and
  the return type that \<^verbatim>\<open>NewFunction\<close> is given. Pointer identity of expression nodes and nil
  pointers of a variant type inside a non-nil interface value are not modelled.
\<close>

datatype expression =
    NilExpr
  | Constant Constant
  | Column Column
  | ScalarFunction (FuncName: CIStr) (Args: "expression list") (RetType: field_type_ptr)

text \<open>
  Error values. \<open>ErrNilPointer\<close> stands for the run-time panic of a nil dereference;
  \<open>ErrOther\<close> for any error a collaborator returns. \<^verbatim>\<open>errors.Trace\<close> only annotates an error
  with a source position and is the identity here.
\<close>

datatype error =
    ErrFunctionNotExists string
  | ErrInvalidArguments string
  | ErrNilPointer
  | ErrOther string

text \<open>
  Modelled from the spec: \<^verbatim>\<open>Schema\<close>, "an ordered sequence of Column descriptors". Its lookup
  \<^verbatim>\<open>GetIndex\<close> is a parameter.
\<close>

type_synonym Schema = "Column list"

text \<open>
  The table of known functions: a name is unknown (\<open>None\<close>) or comes with the check of its
  argument list.
\<close>

type_synonym func_table = "string \<Rightarrow> (expression list \<Rightarrow> bool) option"

text \<open>
  Modelled from the spec: \<^verbatim>\<open>NewFunction\<close> is declared in another file of the package. The spec
  gives the contract \<^verbatim>\<open>NewFunction(name, returnType, args...) -> (Expression, error)\<close>, used "to
  build new ScalarFunction nodes; it must fail with a descriptive error if name is not a
  recognized function or arity/type-checking fails". On failure the expression is nil.
\<close>

definition NewFunction ::
  "func_table \<Rightarrow> string \<Rightarrow> field_type_ptr \<Rightarrow> expression list \<Rightarrow> expression \<times> error option" where
  "NewFunction funcs funcName retType args =
     (case funcs funcName of
        None \<Rightarrow> (NilExpr, Some (ErrFunctionNotExists funcName))
      | Some check \<Rightarrow>
          if check args then (ScalarFunction (NewCIStr funcName) args retType, None)
          else (NilExpr, Some (ErrInvalidArguments funcName)))"

section \<open>Constant\<close>

text \<open>\<^verbatim>\<open>Constant.Clone\<close>: a copy of the struct.\<close>

definition Constant_Clone :: "Constant \<Rightarrow> Constant" where
  "Constant_Clone c = (let con = c in con)"

text \<open>\<^verbatim>\<open>Constant.GetType\<close>.\<close>

definition Constant_GetType :: "Constant \<Rightarrow> field_type_ptr" where
  "Constant_GetType c = Constant.RetType c"

text \<open>\<^verbatim>\<open>Constant.Eval\<close>: the value, with no error; the row and the context are not read.\<close>

definition Constant_Eval :: "Constant \<Rightarrow> datum list \<Rightarrow> 'ctx \<Rightarrow> datum \<times> error option" where
  "Constant_Eval c row ctx = (Value c, None)"

text \<open>
  \<^verbatim>\<open>Constant.HashCode\<close>; \<^verbatim>\<open>codec.EncodeValue\<close> is a parameter. The bytes it returns are
  kept and its error is dropped.
\<close>

definition Constant_HashCode ::
  "(8 word list \<Rightarrow> datum \<Rightarrow> 8 word list \<times> error option) \<Rightarrow> Constant \<Rightarrow> 8 word list" where
  "Constant_HashCode EncodeValue c = (let bytes = [] in fst (EncodeValue bytes (Value c)))"

text \<open>
  \<^verbatim>\<open>Constant.Equal\<close>; \<^verbatim>\<open>CompareDatum\<close> (a method of \<^verbatim>\<open>types.Datum\<close>) is a parameter.
\<close>

definition Constant_Equal ::
  "(datum \<Rightarrow> datum \<Rightarrow> int \<times> error option) \<Rightarrow> Constant \<Rightarrow> expression \<Rightarrow> bool" where
  "Constant_Equal CompareDatum c b =
     (case b of
        Constant y \<Rightarrow>
          (case CompareDatum (Value c) (Value y) of
             (con, err) \<Rightarrow> if err \<noteq> None \<or> con \<noteq> 0 then False else True)
      | _ \<Rightarrow> False)"

section \<open>EvalBool\<close>

text \<open>
  The dynamic call \<^verbatim>\<open>expr.Eval(row, ctx)\<close>. \<^verbatim>\<open>Constant.Eval\<close> is in the source; the Eval
  methods of Column and ScalarFunction are parameters; calling a method of the nil interface
  value panics.
\<close>

fun Eval ::
  "(Column \<Rightarrow> datum list \<Rightarrow> 'ctx \<Rightarrow> datum \<times> error option) \<Rightarrow>
   (expression \<Rightarrow> datum list \<Rightarrow> 'ctx \<Rightarrow> datum \<times> error option) \<Rightarrow>
   expression \<Rightarrow> datum list \<Rightarrow> 'ctx \<Rightarrow> datum \<times> error option" where
  "Eval colEval funcEval NilExpr row ctx = (KindNull, Some ErrNilPointer)"
| "Eval colEval funcEval (Constant c) row ctx = Constant_Eval c row ctx"
| "Eval colEval funcEval (Column x) row ctx = colEval x row ctx"
| "Eval colEval funcEval (ScalarFunction fn args rt) row ctx =
     funcEval (ScalarFunction fn args rt) row ctx"

text \<open>\<^verbatim>\<open>EvalBool\<close>; \<^verbatim>\<open>ToBool\<close> (a method of \<^verbatim>\<open>types.Datum\<close>) is a parameter.\<close>

definition EvalBool ::
  "(Column \<Rightarrow> datum list \<Rightarrow> 'ctx \<Rightarrow> datum \<times> error option) \<Rightarrow>
   (expression \<Rightarrow> datum list \<Rightarrow> 'ctx \<Rightarrow> datum \<times> error option) \<Rightarrow>
   (datum \<Rightarrow> int \<times> error option) \<Rightarrow>
   expression \<Rightarrow> datum list \<Rightarrow> 'ctx \<Rightarrow> bool \<times> error option" where
  "EvalBool colEval funcEval ToBool expr row ctx =
     (case Eval colEval funcEval expr row ctx of
        (data, Some err) \<Rightarrow> (False, Some err)
      | (data, None) \<Rightarrow>
          if IsNull data then (False, None)
          else (case ToBool data of
                  (i, Some err) \<Rightarrow> (False, Some err)
                | (i, None) \<Rightarrow> (i \<noteq> 0, None)))"

section \<open>Composition and flattening of normal forms\<close>

function composeConditionWithBinaryOp ::
  "func_table \<Rightarrow> expression list \<Rightarrow> string \<Rightarrow> expression" where
  "composeConditionWithBinaryOp funcs conditions funcName =
     (let length = length conditions in
      if length = 0 then NilExpr
      else if length = 1 then conditions ! 0
      else fst (NewFunction funcs funcName (NewFieldType TypeTiny)
             [composeConditionWithBinaryOp funcs (take (length div 2) conditions) funcName,
              composeConditionWithBinaryOp funcs (drop (length div 2) conditions) funcName]))"
  by pat_completeness auto
termination
proof (relation "measure (\<lambda>(funcs, conditions, funcName). length conditions)")
  fix funcs :: func_table and conditions :: "expression list" and funcName :: string and n :: nat
  assume n: "n = length conditions" "n \<noteq> 0" "n \<noteq> 1"
  then show "((funcs, take (n div 2) conditions, funcName), (funcs, conditions, funcName))
      \<in> measure (\<lambda>(funcs, conditions, funcName). length conditions)"
    by simp
  from n have "0 < n div 2" by (cases conditions) (simp_all add: Suc_le_eq div_greater_zero_iff)
  with n show "((funcs, drop (n div 2) conditions, funcName), (funcs, conditions, funcName))
      \<in> measure (\<lambda>(funcs, conditions, funcName). length conditions)"
    by simp
qed simp

declare composeConditionWithBinaryOp.simps [simp del]

definition ComposeCNFCondition :: "func_table \<Rightarrow> expression list \<Rightarrow> expression" where
  "ComposeCNFCondition funcs conditions = composeConditionWithBinaryOp funcs conditions AndAnd"

definition ComposeDNFCondition :: "func_table \<Rightarrow> expression list \<Rightarrow> expression" where
  "ComposeDNFCondition funcs conditions = composeConditionWithBinaryOp funcs conditions OrOr"

fun splitNormalFormItems :: "expression \<Rightarrow> string \<Rightarrow> expression list" where
  "splitNormalFormItems (ScalarFunction fn args rt) funcName =
     (if L fn = funcName
      then foldl (\<lambda>ret arg. ret @ splitNormalFormItems arg funcName) [] args
      else [ScalarFunction fn args rt])"
| "splitNormalFormItems onExpr funcName = [onExpr]"

definition SplitCNFItems :: "expression \<Rightarrow> expression list" where
  "SplitCNFItems onExpr = splitNormalFormItems onExpr AndAnd"

definition SplitDNFItems :: "expression \<Rightarrow> expression list" where
  "SplitDNFItems onExpr = splitNormalFormItems onExpr OrOr"

section \<open>Null propagation\<close>

text \<open>
  \<^verbatim>\<open>EvaluateExprWithNull\<close>; \<^verbatim>\<open>Schema.GetIndex\<close> is a parameter. The loop over \<^verbatim>\<open>x.Args\<close> is
  the second function: it stops at the first argument whose rewriting returns an error. The
  default branch is reached by a Constant, which is cloned, and by the nil interface value,
  where \<^verbatim>\<open>x.Clone()\<close> panics.
\<close>

fun EvaluateExprWithNull ::
  "func_table \<Rightarrow> (Schema \<Rightarrow> Column \<Rightarrow> int) \<Rightarrow> Schema \<Rightarrow> expression \<Rightarrow> expression \<times> error option"
and EvaluateExprWithNull_args ::
  "func_table \<Rightarrow> (Schema \<Rightarrow> Column \<Rightarrow> int) \<Rightarrow> Schema \<Rightarrow> expression list \<Rightarrow>
   expression list \<times> error option" where
  "EvaluateExprWithNull funcs GetIndex schema (ScalarFunction fn xargs rt) =
     (case EvaluateExprWithNull_args funcs GetIndex schema xargs of
        (args, Some err) \<Rightarrow> (NilExpr, Some err)
      | (args, None) \<Rightarrow> NewFunction funcs (L fn) (NewFieldType TypeTiny) args)"
| "EvaluateExprWithNull funcs GetIndex schema (Column x) =
     (if GetIndex schema x = - 1 then (Column x, None)
      else (let constant = \<lparr>Value = KindNull, RetType = NilFieldType\<rparr>
            in (Constant constant, None)))"
| "EvaluateExprWithNull funcs GetIndex schema (Constant x) = (Constant (Constant_Clone x), None)"
| "EvaluateExprWithNull funcs GetIndex schema NilExpr = (NilExpr, Some ErrNilPointer)"
| "EvaluateExprWithNull_args funcs GetIndex schema [] = ([], None)"
| "EvaluateExprWithNull_args funcs GetIndex schema (arg # rest) =
     (case EvaluateExprWithNull funcs GetIndex schema arg of
        (a, Some err) \<Rightarrow> ([], Some err)
      | (a, None) \<Rightarrow>
          (case EvaluateExprWithNull_args funcs GetIndex schema rest of
             (as, Some err) \<Rightarrow> ([], Some err)
           | (as, None) \<Rightarrow> (a # as, None)))"

section \<open>Schema builder\<close>

text \<open>
  \<^verbatim>\<open>ResultFieldsToSchema\<close>. The list holds pointers to result fields (\<open>None\<close> is nil). The loop
  carries the index \<open>i\<close> and the schema built so far. Reading a field through a nil pointer, or
  taking the address \<^verbatim>\<open>&field.Column.FieldType\<close> through a nil \<^verbatim>\<open>field.Column\<close>, panics.
\<close>

definition field_colName :: "column_store \<Rightarrow> ResultField \<Rightarrow> error + CIStr" where
  "field_colName h field =
     (let colName = ColumnAsName field in
      if L colName = '''' then
        (case ResultField.Column field of
           None \<Rightarrow> Inl ErrNilPointer
         | Some a \<Rightarrow> (case h a of None \<Rightarrow> Inl ErrNilPointer | Some ci \<Rightarrow> Inr (ColumnInfo.Name ci)))
      else Inr colName)"

definition field_tblName :: "ResultField \<Rightarrow> error + CIStr" where
  "field_tblName field =
     (let tblName = TableAsName field in
      if L tblName = '''' then
        (case Table field of None \<Rightarrow> Inl ErrNilPointer | Some ti \<Rightarrow> Inr (TableInfo.Name ti))
      else Inr tblName)"

fun ResultFieldsToSchema_loop ::
  "column_store \<Rightarrow> nat \<Rightarrow> ResultField option list \<Rightarrow> Schema \<Rightarrow> error + Schema" where
  "ResultFieldsToSchema_loop h i [] schema = Inr schema"
| "ResultFieldsToSchema_loop h i (None # rest) schema = Inl ErrNilPointer"
| "ResultFieldsToSchema_loop h i (Some field # rest) schema =
     (case field_colName h field of
        Inl e \<Rightarrow> Inl e
      | Inr colName \<Rightarrow>
          (case field_tblName field of
             Inl e \<Rightarrow> Inl e
           | Inr tblName \<Rightarrow>
               (case ResultField.Column field of
                  None \<Rightarrow> Inl ErrNilPointer
                | Some a \<Rightarrow>
                    (let col = \<lparr>ColName = colName, TblName = tblName,
                                DBName = ResultField.DBName field,
                                RetType = FieldTypeOf a, Position = int i\<rparr>
                     in ResultFieldsToSchema_loop h (i + 1) rest (schema @ [col])))))"

definition ResultFieldsToSchema :: "column_store \<Rightarrow> ResultField option list \<Rightarrow> error + Schema" where
  "ResultFieldsToSchema h fs = ResultFieldsToSchema_loop h 0 fs []"

section \<open>Notions used in the statements\<close>

text \<open>
  The application-nesting depth of an expression: a ScalarFunction is one level above its
  deepest argument, every other expression has depth 0.
\<close>

fun depth :: "expression \<Rightarrow> nat" where
  "depth (ScalarFunction fn args rt) = Suc (fold max (map depth args) 0)"
| "depth e = 0"

text \<open>An expression is an application of the operator \<open>op\<close>, as \<^verbatim>\<open>splitNormalFormItems\<close> tests it.\<close>

fun is_application :: "string \<Rightarrow> expression \<Rightarrow> bool" where
  "is_application op (ScalarFunction fn args rt) = (L fn = op)"
| "is_application op e = False"

text \<open>
  The table of functions knows the name \<open>funcName\<close> and its check passes every list of two
  arguments: \<^verbatim>\<open>NewFunction\<close> cannot fail on a binary application of \<open>funcName\<close>. The spec
  says so of AND and OR ("those operator names are always valid").
\<close>

definition accepts_binary :: "func_table \<Rightarrow> string \<Rightarrow> bool" where
  "accepts_binary funcs funcName =
     (case funcs funcName of None \<Rightarrow> False | Some check \<Rightarrow> \<forall>a b. check [a, b])"

text \<open>A table of functions that knows the two logical operators, each with two arguments.\<close>

definition logic_funcs :: func_table where
  "logic_funcs name =
     (if name = AndAnd \<or> name = OrOr then Some (\<lambda>args. length args = 2) else None)"

text \<open>
  A pointer to a result field that \<^verbatim>\<open>ResultFieldsToSchema\<close> can read without a panic: the
  pointer and its \<^verbatim>\<open>Column\<close> are not nil (and the ColumnInfo object is in the store), and
  \<^verbatim>\<open>Table\<close> is not nil when there is no table alias.
\<close>

definition well_formed_field :: "column_store \<Rightarrow> ResultField option \<Rightarrow> bool" where
  "well_formed_field h fp =
     (case fp of
        None \<Rightarrow> False
      | Some field \<Rightarrow>
          (case ResultField.Column field of None \<Rightarrow> False | Some a \<Rightarrow> h a \<noteq> None) \<and>
          (L (TableAsName field) \<noteq> '''' \<or> Table field \<noteq> None))"

text \<open>
  The column \<open>col\<close> is the one the schema builder makes of the field behind \<open>fp\<close> at
  index \<open>i\<close>.
\<close>

definition column_of_field :: "column_store \<Rightarrow> ResultField option \<Rightarrow> int \<Rightarrow> Column \<Rightarrow> bool" where
  "column_of_field h fp i col =
     (\<exists>field a ci. fp = Some field \<and> ResultField.Column field = Some a \<and> h a = Some ci \<and>
        ColName col = (if L (ColumnAsName field) = '''' then ColumnInfo.Name ci else ColumnAsName field) \<and>
        (L (TableAsName field) = '''' \<longrightarrow> (\<exists>ti. Table field = Some ti \<and> TblName col = TableInfo.Name ti)) \<and>
        (L (TableAsName field) \<noteq> '''' \<longrightarrow> TblName col = TableAsName field) \<and>
        Column.RetType col = FieldTypeOf a \<and>
        Position col = i)"

subsection \<open>Example values\<close>

text \<open>Concrete columns, collaborators and result fields, on which the theorems are run.\<close>

definition colA :: Column where
  "colA = \<lparr>ColName = NewCIStr ''a'', TblName = NewCIStr ''t'', DBName = NewCIStr ''d'',
            RetType = NewFieldType TypeTiny, Position = 0\<rparr>"

definition colB :: Column where
  "colB = \<lparr>ColName = NewCIStr ''b'', TblName = NewCIStr ''s'', DBName = NewCIStr ''d'',
            RetType = NewFieldType TypeTiny, Position = 1\<rparr>"

definition example_GetIndex :: "Schema \<Rightarrow> Column \<Rightarrow> int" where
  "example_GetIndex schema col = (if col \<in> set schema then 0 else - 1)"

definition example_ToBool :: "datum \<Rightarrow> int \<times> error option" where
  "example_ToBool d =
     (case d of
        KindNull \<Rightarrow> (0, None)
      | KindInt64 n \<Rightarrow> (n, None)
      | KindString s \<Rightarrow> (0, Some (ErrOther ''not a number'')))"

definition example_colEval :: "Column \<Rightarrow> datum list \<Rightarrow> unit \<Rightarrow> datum \<times> error option" where
  "example_colEval x row ctx =
     (if 0 \<le> Position x \<and> nat (Position x) < length row then (row ! nat (Position x), None)
      else (KindNull, Some (ErrOther ''no such column'')))"

definition example_funcEval :: "expression \<Rightarrow> datum list \<Rightarrow> unit \<Rightarrow> datum \<times> error option" where
  "example_funcEval f row ctx = (KindNull, Some (ErrOther ''not evaluated''))"

definition example_store :: column_store where
  "example_store = [10 \<mapsto> \<lparr>Name = NewCIStr ''c1'', FieldType = \<lparr>Tp = TypeTiny\<rparr>\<rparr>]"

definition field1 :: ResultField where
  "field1 = \<lparr>ResultField.Column = Some 10, ColumnAsName = NewCIStr '''',
             Table = Some \<lparr>TableInfo.Name = NewCIStr ''t1''\<rparr>, TableAsName = NewCIStr '''',
             ResultField.DBName = NewCIStr ''d''\<rparr>"

definition field2 :: ResultField where
  "field2 = \<lparr>ResultField.Column = Some 10, ColumnAsName = NewCIStr ''c2'',
             Table = None, TableAsName = NewCIStr ''t2'',
             ResultField.DBName = NewCIStr ''d''\<rparr>"

definition example_CompareDatum :: "datum \<Rightarrow> datum \<Rightarrow> int \<times> error option" where
  "example_CompareDatum a b = (if a = b then 0 else 1, None)"

section \<open>Balanced composition\<close>

lemma compose_empty: "composeConditionWithBinaryOp funcs [] funcName = NilExpr"
  by (simp add: composeConditionWithBinaryOp.simps)

lemma compose_single: "composeConditionWithBinaryOp funcs [x] funcName = x"
  by (simp add: composeConditionWithBinaryOp.simps)

lemma NewFunction_binary:
  assumes "accepts_binary funcs funcName"
  shows "NewFunction funcs funcName rt [a, b] = (ScalarFunction (NewCIStr funcName) [a, b] rt, None)"
  using assms by (cases "funcs funcName") (simp_all add: NewFunction_def accepts_binary_def)

lemma compose_split:
  assumes "2 \<le> length conditions" and "accepts_binary funcs funcName"
  shows "composeConditionWithBinaryOp funcs conditions funcName =
           ScalarFunction (NewCIStr funcName)
             [composeConditionWithBinaryOp funcs (take (length conditions div 2) conditions) funcName,
              composeConditionWithBinaryOp funcs (drop (length conditions div 2) conditions) funcName]
             (NewFieldType TypeTiny)"
proof -
  from assms(1) have "length conditions \<noteq> 0" "length conditions \<noteq> 1" by auto
  then show ?thesis
    by (subst composeConditionWithBinaryOp.simps)
       (simp add: Let_def NewFunction_binary [OF assms(2)])
qed

lemma depth_binary: "depth (ScalarFunction fn [l, r] rt) = Suc (max (depth l) (depth r))"
  by (simp add: max.commute)

lemma ceillog2_halves:
  assumes "2 \<le> n"
  shows "ceillog2 n = Suc (ceillog2 (n - n div 2))"
    and "ceillog2 (n div 2) \<le> ceillog2 (n - n div 2)"
proof -
  have eq: "n - n div 2 = (n + 1) div 2" by arith
  from assms show "ceillog2 n = Suc (ceillog2 (n - n div 2))"
    by (subst ceillog2_rec) (simp add: eq)
  show "ceillog2 (n div 2) \<le> ceillog2 (n - n div 2)"
    by (rule ceillog2_mono) arith
qed

lemma compose_depth_bounds:
  assumes "accepts_binary funcs funcName"
  shows "conditions \<noteq> [] \<Longrightarrow> \<forall>e\<in>set conditions. lo \<le> depth e \<and> depth e \<le> hi \<Longrightarrow>
         lo + ceillog2 (length conditions) \<le> depth (composeConditionWithBinaryOp funcs conditions funcName) \<and>
         depth (composeConditionWithBinaryOp funcs conditions funcName) \<le> hi + ceillog2 (length conditions)"
proof (induction conditions rule: length_induct)
  case (1 xs)
  let ?n = "length xs"
  from "1.prems"(1) have "0 < ?n" by simp
  then consider "?n = 1" | "2 \<le> ?n" by linarith
  then show ?case
  proof cases
    case 1
    then obtain x where xs: "xs = [x]" by (cases xs) auto
    with "1.prems"(2) show ?thesis by (simp add: compose_single)
  next
    case 2
    let ?l = "take (?n div 2) xs" and ?r = "drop (?n div 2) xs"
    from 2 have ll: "length ?l = ?n div 2" "length ?l < ?n" "?l \<noteq> []" by auto
    from 2 have lr: "length ?r = ?n - ?n div 2" "length ?r < ?n" "?r \<noteq> []" by auto
    have bl: "\<forall>e\<in>set ?l. lo \<le> depth e \<and> depth e \<le> hi"
      using "1.prems"(2) by (meson in_set_takeD)
    have br: "\<forall>e\<in>set ?r. lo \<le> depth e \<and> depth e \<le> hi"
      using "1.prems"(2) by (meson in_set_dropD)
    from "1.IH" ll bl
    have Dl: "depth (composeConditionWithBinaryOp funcs ?l funcName) \<le> hi + ceillog2 (?n div 2)"
      by (metis (no_types, lifting))
    from "1.IH" lr br
    have Dr: "lo + ceillog2 (?n - ?n div 2) \<le> depth (composeConditionWithBinaryOp funcs ?r funcName)"
             "depth (composeConditionWithBinaryOp funcs ?r funcName) \<le> hi + ceillog2 (?n - ?n div 2)"
      by (metis (no_types, lifting))+
    have D: "depth (composeConditionWithBinaryOp funcs xs funcName) =
        Suc (max (depth (composeConditionWithBinaryOp funcs ?l funcName))
                 (depth (composeConditionWithBinaryOp funcs ?r funcName)))"
      by (subst compose_split [OF 2 assms]) (rule depth_binary)
    from ceillog2_halves [OF 2] Dl Dr show ?thesis
      unfolding D by linarith
  qed
qed

lemma split_binary:
  "splitNormalFormItems (ScalarFunction fn [l, r] rt) (L fn) =
     splitNormalFormItems l (L fn) @ splitNormalFormItems r (L fn)"
  by simp

lemma split_non_application:
  "\<not> is_application funcName e \<Longrightarrow> splitNormalFormItems e funcName = [e]"
  by (cases e) simp_all

lemma split_compose:
  assumes "accepts_binary funcs funcName" and low: "ToLower funcName = funcName"
  shows "conditions \<noteq> [] \<Longrightarrow> \<forall>e\<in>set conditions. \<not> is_application funcName e \<Longrightarrow>
         splitNormalFormItems (composeConditionWithBinaryOp funcs conditions funcName) funcName = conditions"
proof (induction conditions rule: length_induct)
  case (1 xs)
  let ?n = "length xs"
  from "1.prems"(1) have "0 < ?n" by simp
  then consider "?n = 1" | "2 \<le> ?n" by linarith
  then show ?case
  proof cases
    case 1
    then obtain x where xs: "xs = [x]" by (cases xs) auto
    with "1.prems"(2) show ?thesis by (simp add: compose_single split_non_application)
  next
    case 2
    let ?l = "take (?n div 2) xs" and ?r = "drop (?n div 2) xs"
    from 2 have ll: "length ?l < ?n" "?l \<noteq> []" by auto
    from 2 have lr: "length ?r < ?n" "?r \<noteq> []" by auto
    have bl: "\<forall>e\<in>set ?l. \<not> is_application funcName e"
      using "1.prems"(2) by (meson in_set_takeD)
    have br: "\<forall>e\<in>set ?r. \<not> is_application funcName e"
      using "1.prems"(2) by (meson in_set_dropD)
    have Sl: "splitNormalFormItems (composeConditionWithBinaryOp funcs ?l funcName) funcName = ?l"
      using "1.IH" ll bl by blast
    have Sr: "splitNormalFormItems (composeConditionWithBinaryOp funcs ?r funcName) funcName = ?r"
      using "1.IH" lr br by blast
    have Lop: "L (NewCIStr funcName) = funcName"
      by (simp add: NewCIStr_def low)
    have "splitNormalFormItems (composeConditionWithBinaryOp funcs xs funcName) funcName =
          splitNormalFormItems (composeConditionWithBinaryOp funcs ?l funcName) funcName @
          splitNormalFormItems (composeConditionWithBinaryOp funcs ?r funcName) funcName"
      by (subst compose_split [OF 2 assms(1)]) (simp add: Lop)
    then show ?thesis by (simp add: Sl Sr)
  qed
qed

lemma logic_funcs_binary: "accepts_binary logic_funcs AndAnd" "accepts_binary logic_funcs OrOr"
  by (simp_all add: accepts_binary_def logic_funcs_def)

lemma lower_case_operators: "ToLower AndAnd = AndAnd" "ToLower OrOr = OrOr"
  by (simp_all add: ToLower_def AndAnd_def OrOr_def)

text \<open>
  C1: for a non-empty list of N conditions and an operator that \<^verbatim>\<open>NewFunction\<close> accepts on two
  arguments, \<^verbatim>\<open>composeConditionWithBinaryOp\<close> returns the condition itself when N = 1, and
  for N \<ge> 2 one application of the operator to the compositions of the two halves of the list,
  cut at \<open>N div 2\<close>. The composition puts exactly \<open>\<lceil>log2 N\<rceil>\<close> levels of nesting above
  its inputs: when the conditions have depth 0 the tree has depth \<open>\<lceil>log2 N\<rceil>\<close>, and when
  their depths lie between \<open>lo\<close> and \<open>hi\<close> the depth of the tree lies between
  \<open>lo + \<lceil>log2 N\<rceil>\<close> and \<open>hi + \<lceil>log2 N\<rceil>\<close>. \<^verbatim>\<open>ComposeCNFCondition\<close> and
  \<^verbatim>\<open>ComposeDNFCondition\<close> are this function at AND and OR.
\<close>

theorem C1_balanced_composition:
  assumes "conditions \<noteq> []" and "accepts_binary funcs funcName"
  shows "(length conditions = 1 \<longrightarrow>
            composeConditionWithBinaryOp funcs conditions funcName = conditions ! 0) \<and>
         (2 \<le> length conditions \<longrightarrow>
            composeConditionWithBinaryOp funcs conditions funcName =
              ScalarFunction (NewCIStr funcName)
                [composeConditionWithBinaryOp funcs
                   (take (length conditions div 2) conditions) funcName,
                 composeConditionWithBinaryOp funcs
                   (drop (length conditions div 2) conditions) funcName]
                (NewFieldType TypeTiny)) \<and>
         ((\<forall>e\<in>set conditions. depth e = 0) \<longrightarrow>
            depth (composeConditionWithBinaryOp funcs conditions funcName) =
              ceillog2 (length conditions)) \<and>
         ((\<forall>e\<in>set conditions. lo \<le> depth e \<and> depth e \<le> hi) \<longrightarrow>
            lo + ceillog2 (length conditions)
              \<le> depth (composeConditionWithBinaryOp funcs conditions funcName) \<and>
            depth (composeConditionWithBinaryOp funcs conditions funcName)
              \<le> hi + ceillog2 (length conditions)) \<and>
         ComposeCNFCondition funcs conditions =
           composeConditionWithBinaryOp funcs conditions AndAnd \<and>
         ComposeDNFCondition funcs conditions =
           composeConditionWithBinaryOp funcs conditions OrOr"
proof -
  have one: "length conditions = 1 \<longrightarrow>
      composeConditionWithBinaryOp funcs conditions funcName = conditions ! 0"
    by (simp add: composeConditionWithBinaryOp.simps)
  have flat: "depth (composeConditionWithBinaryOp funcs conditions funcName) =
      ceillog2 (length conditions)" if "\<forall>e\<in>set conditions. depth e = 0"
    using compose_depth_bounds [OF assms(2) assms(1), of 0 0] that by simp
  have two: "2 \<le> length conditions \<longrightarrow>
      composeConditionWithBinaryOp funcs conditions funcName =
        ScalarFunction (NewCIStr funcName)
          [composeConditionWithBinaryOp funcs (take (length conditions div 2) conditions) funcName,
           composeConditionWithBinaryOp funcs (drop (length conditions div 2) conditions) funcName]
          (NewFieldType TypeTiny)"
    using compose_split [OF _ assms(2)] by blast
  have bounds: "(\<forall>e\<in>set conditions. lo \<le> depth e \<and> depth e \<le> hi) \<longrightarrow>
      lo + ceillog2 (length conditions)
        \<le> depth (composeConditionWithBinaryOp funcs conditions funcName) \<and>
      depth (composeConditionWithBinaryOp funcs conditions funcName)
        \<le> hi + ceillog2 (length conditions)"
    using compose_depth_bounds [OF assms(2) assms(1), of lo hi] by blast
  from one two flat bounds show ?thesis
    unfolding ComposeCNFCondition_def ComposeDNFCondition_def by blast
qed

theorem C1_balanced_composition_witness:
  "[Constant \<lparr>Value = KindInt64 1, RetType = NilFieldType\<rparr>,
    Constant \<lparr>Value = KindInt64 2, RetType = NilFieldType\<rparr>,
    Constant \<lparr>Value = KindInt64 3, RetType = NilFieldType\<rparr>] \<noteq> [] \<and>
   accepts_binary logic_funcs AndAnd \<and>
   depth (composeConditionWithBinaryOp logic_funcs
     [Constant \<lparr>Value = KindInt64 1, RetType = NilFieldType\<rparr>,
      Constant \<lparr>Value = KindInt64 2, RetType = NilFieldType\<rparr>,
      Constant \<lparr>Value = KindInt64 3, RetType = NilFieldType\<rparr>] AndAnd) = 2"
proof -
  let ?xs = "[Constant \<lparr>Value = KindInt64 1, RetType = NilFieldType\<rparr>,
    Constant \<lparr>Value = KindInt64 2, RetType = NilFieldType\<rparr>,
    Constant \<lparr>Value = KindInt64 3, RetType = NilFieldType\<rparr>]"
  have ne: "?xs \<noteq> []" by simp
  have atoms: "\<forall>e\<in>set ?xs. depth e = 0" by simp
  have "ceillog2 (Suc (Suc (Suc 0))) = 2" by code_simp
  then have three: "ceillog2 (length ?xs) = 2" by simp
  from C1_balanced_composition [OF ne logic_funcs_binary(1), of 0 0] atoms
  have "depth (composeConditionWithBinaryOp logic_funcs ?xs AndAnd) = ceillog2 (length ?xs)"
    by blast
  from this three have "depth (composeConditionWithBinaryOp logic_funcs ?xs AndAnd) = 2"
    by (rule trans)
  with ne logic_funcs_binary(1) show ?thesis by blast
qed

section \<open>Flattening a composed tree\<close>

text \<open>
  C10: for a non-empty list of conditions none of which is an application of the operator,
  flattening the composed tree gives back the list itself, element for element in the same
  order. The operator is one that \<^verbatim>\<open>NewFunction\<close> accepts on two arguments and is spelled in
  lower case, as \<^verbatim>\<open>ast.AndAnd\<close> and \<^verbatim>\<open>ast.OrOr\<close> are: \<^verbatim>\<open>splitNormalFormItems\<close> compares
  the lower-case name of a node with the operator.
\<close>

theorem C10_split_of_compose_is_identity:
  assumes "conditions \<noteq> []"
    and "\<forall>e\<in>set conditions. \<not> is_application funcName e"
    and "accepts_binary funcs funcName"
    and "ToLower funcName = funcName"
  shows "splitNormalFormItems (composeConditionWithBinaryOp funcs conditions funcName) funcName
           = conditions"
  using split_compose [OF assms(3) assms(4) assms(1) assms(2)] .

theorem C10_split_of_compose_is_identity_witness:
  "[Constant \<lparr>Value = KindInt64 1, RetType = NilFieldType\<rparr>,
    ScalarFunction (NewCIStr AndAnd) [NilExpr, NilExpr] NilFieldType,
    Constant \<lparr>Value = KindString ''x'', RetType = NilFieldType\<rparr>] \<noteq> [] \<and>
   \<not> is_application OrOr (Constant \<lparr>Value = KindInt64 1, RetType = NilFieldType\<rparr>) \<and>
   \<not> is_application OrOr (ScalarFunction (NewCIStr AndAnd) [NilExpr, NilExpr] NilFieldType) \<and>
   \<not> is_application OrOr (Constant \<lparr>Value = KindString ''x'', RetType = NilFieldType\<rparr>) \<and>
   accepts_binary logic_funcs OrOr \<and> ToLower OrOr = OrOr \<and>
   splitNormalFormItems (composeConditionWithBinaryOp logic_funcs
     [Constant \<lparr>Value = KindInt64 1, RetType = NilFieldType\<rparr>,
      ScalarFunction (NewCIStr AndAnd) [NilExpr, NilExpr] NilFieldType,
      Constant \<lparr>Value = KindString ''x'', RetType = NilFieldType\<rparr>] OrOr) OrOr =
     [Constant \<lparr>Value = KindInt64 1, RetType = NilFieldType\<rparr>,
      ScalarFunction (NewCIStr AndAnd) [NilExpr, NilExpr] NilFieldType,
      Constant \<lparr>Value = KindString ''x'', RetType = NilFieldType\<rparr>]"
proof -
  let ?xs = "[Constant \<lparr>Value = KindInt64 1, RetType = NilFieldType\<rparr>,
    ScalarFunction (NewCIStr AndAnd) [NilExpr, NilExpr] NilFieldType,
    Constant \<lparr>Value = KindString ''x'', RetType = NilFieldType\<rparr>]"
  have ne: "?xs \<noteq> []" by simp
  have na: "\<forall>e\<in>set ?xs. \<not> is_application OrOr e"
    by (simp add: NewCIStr_def ToLower_def AndAnd_def OrOr_def)
  from C10_split_of_compose_is_identity [OF ne na logic_funcs_binary(2) lower_case_operators(2)]
  show ?thesis
    using na logic_funcs_binary(2) lower_case_operators(2) by simp
qed

text \<open>
  C3 (as the code has it): for a non-empty list of conditions none of which is an
  AND-application, \<^verbatim>\<open>SplitCNFItems\<close> of \<^verbatim>\<open>ComposeCNFCondition\<close> of the list has the same
  multiset of elements as the list.
\<close>

theorem C3_cnf_round_trip_nonempty:
  assumes "conditions \<noteq> []"
    and "\<forall>e\<in>set conditions. \<not> is_application AndAnd e"
    and "accepts_binary funcs AndAnd"
  shows "mset (SplitCNFItems (ComposeCNFCondition funcs conditions)) = mset conditions"
  using split_compose [OF assms(3) lower_case_operators(1) assms(1) assms(2)]
  by (simp add: SplitCNFItems_def ComposeCNFCondition_def)

theorem C3_cnf_round_trip_nonempty_witness:
  "[Constant \<lparr>Value = KindInt64 1, RetType = NilFieldType\<rparr>, NilExpr,
    ScalarFunction (NewCIStr OrOr) [NilExpr, NilExpr] NilFieldType] \<noteq> [] \<and>
   \<not> is_application AndAnd (Constant \<lparr>Value = KindInt64 1, RetType = NilFieldType\<rparr>) \<and>
   \<not> is_application AndAnd NilExpr \<and>
   \<not> is_application AndAnd (ScalarFunction (NewCIStr OrOr) [NilExpr, NilExpr] NilFieldType) \<and>
   accepts_binary logic_funcs AndAnd \<and>
   mset (SplitCNFItems (ComposeCNFCondition logic_funcs
     [Constant \<lparr>Value = KindInt64 1, RetType = NilFieldType\<rparr>, NilExpr,
      ScalarFunction (NewCIStr OrOr) [NilExpr, NilExpr] NilFieldType])) =
   mset [Constant \<lparr>Value = KindInt64 1, RetType = NilFieldType\<rparr>, NilExpr,
      ScalarFunction (NewCIStr OrOr) [NilExpr, NilExpr] NilFieldType]"
proof -
  let ?xs = "[Constant \<lparr>Value = KindInt64 1, RetType = NilFieldType\<rparr>, NilExpr,
    ScalarFunction (NewCIStr OrOr) [NilExpr, NilExpr] NilFieldType]"
  have ne: "?xs \<noteq> []" by simp
  have na: "\<forall>e\<in>set ?xs. \<not> is_application AndAnd e"
    by (simp add: NewCIStr_def ToLower_def AndAnd_def OrOr_def)
  from C3_cnf_round_trip_nonempty [OF ne na logic_funcs_binary(1)]
  show ?thesis
    using na logic_funcs_binary(1) by simp
qed

text \<open>
  C3 as stated, for every list, fails at the empty list: the composition is nil and its
  flattening has the one element nil, which the empty list does not have.
\<close>

theorem C3_empty_list_gains_an_element:
  "mset (SplitCNFItems (ComposeCNFCondition logic_funcs [])) \<noteq> mset []"
  by (simp add: ComposeCNFCondition_def SplitCNFItems_def compose_empty)

section \<open>The empty list of conditions\<close>

text \<open>
  C2 (as the code has it): \<^verbatim>\<open>ComposeCNFCondition\<close> of the empty list is nil, and
  \<^verbatim>\<open>SplitCNFItems\<close> of nil is the list whose one element is nil: nil is not a ScalarFunction,
  so the type switch falls through to \<^verbatim>\<open>return []Expression{onExpr}\<close>.
\<close>

theorem C2_empty_compose_then_split:
  "ComposeCNFCondition funcs [] = NilExpr \<and>
   SplitCNFItems (ComposeCNFCondition funcs []) = [NilExpr]"
  by (simp add: ComposeCNFCondition_def SplitCNFItems_def compose_empty)

text \<open>
  C2 as stated fails: the list that \<^verbatim>\<open>SplitCNFItems\<close> returns for the composition of no
  conditions is not empty.
\<close>

theorem C2_split_of_nil_not_empty:
  "SplitCNFItems (ComposeCNFCondition logic_funcs []) \<noteq> []"
  by (simp add: ComposeCNFCondition_def SplitCNFItems_def compose_empty)

section \<open>Equality of constants\<close>

text \<open>
  C5: two Constants whose values compare equal (\<^verbatim>\<open>CompareDatum\<close> returns 0 and no error) are
  \<^verbatim>\<open>Equal\<close>, whatever their declared types \<open>t1\<close> and \<open>t2\<close> are; and a Constant is not
  \<^verbatim>\<open>Equal\<close> to any expression that is not a Constant.
\<close>

theorem C5_constant_equality:
  "(CompareDatum v w = (0, None) \<longrightarrow>
      Constant_Equal CompareDatum \<lparr>Value = v, RetType = t1\<rparr> (Constant \<lparr>Value = w, RetType = t2\<rparr>)) \<and>
   ((\<forall>y. e \<noteq> Constant y) \<longrightarrow> \<not> Constant_Equal CompareDatum c e)"
  by (cases e) (simp_all add: Constant_Equal_def)

theorem C5_constant_equality_witness:
  "example_CompareDatum (KindInt64 3) (KindInt64 3) = (0, None) \<and>
   Constant_Equal example_CompareDatum
     \<lparr>Value = KindInt64 3, RetType = NewFieldType TypeTiny\<rparr>
     (Constant \<lparr>Value = KindInt64 3, RetType = FieldTypeOf 7\<rparr>) \<and>
   Eval example_colEval example_funcEval (Column colA) [KindInt64 3] () =
     Eval example_colEval example_funcEval
       (Constant \<lparr>Value = KindInt64 3, RetType = NewFieldType TypeTiny\<rparr>) [KindInt64 3] () \<and>
   \<not> Constant_Equal example_CompareDatum
     \<lparr>Value = KindInt64 3, RetType = NewFieldType TypeTiny\<rparr> (Column colA)"
proof -
  let ?c = "\<lparr>Value = KindInt64 3, RetType = NewFieldType TypeTiny\<rparr>"
  have eq: "example_CompareDatum (KindInt64 3) (KindInt64 3) = (0, None)"
    by (simp add: example_CompareDatum_def)
  have nc: "\<forall>y. Column colA \<noteq> Constant y" by simp
  have same: "Eval example_colEval example_funcEval (Column colA) [KindInt64 3] () =
      Eval example_colEval example_funcEval (Constant ?c) [KindInt64 3] ()"
    by (simp add: example_colEval_def colA_def Constant_Eval_def)
  from C5_constant_equality [of example_CompareDatum "KindInt64 3" "KindInt64 3"
      "NewFieldType TypeTiny" "FieldTypeOf 7" "Column colA" ?c] eq nc
  have "Constant_Equal example_CompareDatum ?c
          (Constant \<lparr>Value = KindInt64 3, RetType = FieldTypeOf 7\<rparr>)"
    and "\<not> Constant_Equal example_CompareDatum ?c (Column colA)"
    by blast+
  with eq same show ?thesis by blast
qed

section \<open>Null propagation\<close>

lemma colA_neq_colB: "colA \<noteq> colB"
  by (simp add: colA_def colB_def)

lemma example_GetIndex_values:
  "example_GetIndex [colA] colA \<noteq> - 1" "example_GetIndex [colA] colB = - 1"
  by (simp_all add: example_GetIndex_def colA_def colB_def)

text \<open>
  C6: \<^verbatim>\<open>EvaluateExprWithNull\<close> returns a Column unchanged, with no error, when
  \<^verbatim>\<open>GetIndex\<close> gives the sentinel -1 for it; otherwise it returns a Constant that holds the
  null value and whose declared type is nil, whatever the declared type of the column.
\<close>

theorem C6_column_null_propagation:
  "(GetIndex schema x = - 1 \<longrightarrow>
      EvaluateExprWithNull funcs GetIndex schema (Column x) = (Column x, None)) \<and>
   (GetIndex schema x \<noteq> - 1 \<longrightarrow>
      EvaluateExprWithNull funcs GetIndex schema (Column x) =
        (Constant \<lparr>Value = KindNull, RetType = NilFieldType\<rparr>, None)) \<and>
   IsNull (Value \<lparr>Value = KindNull, RetType = NilFieldType\<rparr>) \<and>
   Constant_GetType \<lparr>Value = KindNull, RetType = NilFieldType\<rparr> = NilFieldType"
  by (simp add: IsNull_def Constant_GetType_def)

theorem C6_column_null_propagation_witness:
  "example_GetIndex [colA] colB = - 1 \<and>
   EvaluateExprWithNull logic_funcs example_GetIndex [colA] (Column colB) = (Column colB, None) \<and>
   example_GetIndex [colA] colA \<noteq> - 1 \<and>
   EvaluateExprWithNull logic_funcs example_GetIndex [colA] (Column colA) =
     (Constant \<lparr>Value = KindNull, RetType = NilFieldType\<rparr>, None) \<and>
   Column.RetType colA \<noteq> NilFieldType"
proof -
  from C6_column_null_propagation [of example_GetIndex "[colA]" colB logic_funcs]
    example_GetIndex_values(2)
  have 1: "EvaluateExprWithNull logic_funcs example_GetIndex [colA] (Column colB) =
      (Column colB, None)"
    by blast
  from C6_column_null_propagation [of example_GetIndex "[colA]" colA logic_funcs]
    example_GetIndex_values(1)
  have 2: "EvaluateExprWithNull logic_funcs example_GetIndex [colA] (Column colA) =
      (Constant \<lparr>Value = KindNull, RetType = NilFieldType\<rparr>, None)"
    by blast
  have 3: "Column.RetType colA \<noteq> NilFieldType" by (simp add: colA_def)
  from example_GetIndex_values 1 2 3 show ?thesis by blast
qed

lemma args_all_ok:
  "\<forall>arg\<in>set xs. snd (EvaluateExprWithNull funcs GetIndex schema arg) = None \<Longrightarrow>
   EvaluateExprWithNull_args funcs GetIndex schema xs =
     (map (\<lambda>arg. fst (EvaluateExprWithNull funcs GetIndex schema arg)) xs, None)"
  by (induction xs) (auto split: prod.splits option.splits)

lemma args_first_error:
  "i < length xs \<Longrightarrow>
   \<forall>j<i. snd (EvaluateExprWithNull funcs GetIndex schema (xs ! j)) = None \<Longrightarrow>
   snd (EvaluateExprWithNull funcs GetIndex schema (xs ! i)) = Some err \<Longrightarrow>
   EvaluateExprWithNull_args funcs GetIndex schema xs = ([], Some err)"
proof (induction xs arbitrary: i)
  case Nil
  then show ?case by simp
next
  case (Cons x xs)
  show ?case
  proof (cases i)
    case 0
    with Cons.prems(3) show ?thesis by (auto split: prod.splits option.splits)
  next
    case (Suc i')
    from Cons.prems(2) Suc have x: "snd (EvaluateExprWithNull funcs GetIndex schema x) = None"
      by auto
    from Cons.prems Suc have
      "EvaluateExprWithNull_args funcs GetIndex schema xs = ([], Some err)"
      by (intro Cons.IH [of i']) auto
    with x show ?thesis by (auto split: prod.splits option.splits)
  qed
qed


text \<open>
  C7: on a ScalarFunction, \<^verbatim>\<open>EvaluateExprWithNull\<close> rewrites every argument and returns what
  \<^verbatim>\<open>NewFunction\<close> returns for the lower-case function name and the list of rewritten
  arguments: a new ScalarFunction over them when the table of functions accepts them, and nil
  with the error of \<^verbatim>\<open>NewFunction\<close> otherwise. When the rewriting of an argument returns an
  error (and no argument before it does), the result is nil with that error.
\<close>

theorem C7_scalar_function_null_propagation:
  "((\<forall>arg\<in>set xargs. snd (EvaluateExprWithNull funcs GetIndex schema arg) = None) \<longrightarrow>
      EvaluateExprWithNull funcs GetIndex schema (ScalarFunction fn xargs rt) =
        NewFunction funcs (L fn) (NewFieldType TypeTiny)
          (map (\<lambda>arg. fst (EvaluateExprWithNull funcs GetIndex schema arg)) xargs)) \<and>
   ((\<forall>arg\<in>set xargs. snd (EvaluateExprWithNull funcs GetIndex schema arg) = None) \<and>
    funcs (L fn) = Some check \<and>
    check (map (\<lambda>arg. fst (EvaluateExprWithNull funcs GetIndex schema arg)) xargs) \<longrightarrow>
      EvaluateExprWithNull funcs GetIndex schema (ScalarFunction fn xargs rt) =
        (ScalarFunction (NewCIStr (L fn))
           (map (\<lambda>arg. fst (EvaluateExprWithNull funcs GetIndex schema arg)) xargs)
           (NewFieldType TypeTiny), None)) \<and>
   ((\<forall>arg\<in>set xargs. snd (EvaluateExprWithNull funcs GetIndex schema arg) = None) \<and>
    snd (NewFunction funcs (L fn) (NewFieldType TypeTiny)
          (map (\<lambda>arg. fst (EvaluateExprWithNull funcs GetIndex schema arg)) xargs)) = Some err \<longrightarrow>
      EvaluateExprWithNull funcs GetIndex schema (ScalarFunction fn xargs rt) = (NilExpr, Some err)) \<and>
   (i < length xargs \<and>
    (\<forall>j<i. snd (EvaluateExprWithNull funcs GetIndex schema (xargs ! j)) = None) \<and>
    snd (EvaluateExprWithNull funcs GetIndex schema (xargs ! i)) = Some err \<longrightarrow>
      EvaluateExprWithNull funcs GetIndex schema (ScalarFunction fn xargs rt) = (NilExpr, Some err))"
proof (intro conjI impI)
  assume "\<forall>arg\<in>set xargs. snd (EvaluateExprWithNull funcs GetIndex schema arg) = None"
  then show "EvaluateExprWithNull funcs GetIndex schema (ScalarFunction fn xargs rt) =
        NewFunction funcs (L fn) (NewFieldType TypeTiny)
          (map (\<lambda>arg. fst (EvaluateExprWithNull funcs GetIndex schema arg)) xargs)"
    by (simp add: args_all_ok)
next
  assume "(\<forall>arg\<in>set xargs. snd (EvaluateExprWithNull funcs GetIndex schema arg) = None) \<and>
    funcs (L fn) = Some check \<and>
    check (map (\<lambda>arg. fst (EvaluateExprWithNull funcs GetIndex schema arg)) xargs)"
  then show "EvaluateExprWithNull funcs GetIndex schema (ScalarFunction fn xargs rt) =
        (ScalarFunction (NewCIStr (L fn))
           (map (\<lambda>arg. fst (EvaluateExprWithNull funcs GetIndex schema arg)) xargs)
           (NewFieldType TypeTiny), None)"
    by (simp add: args_all_ok NewFunction_def)
next
  assume a: "(\<forall>arg\<in>set xargs. snd (EvaluateExprWithNull funcs GetIndex schema arg) = None) \<and>
    snd (NewFunction funcs (L fn) (NewFieldType TypeTiny)
          (map (\<lambda>arg. fst (EvaluateExprWithNull funcs GetIndex schema arg)) xargs)) = Some err"
  then have "EvaluateExprWithNull funcs GetIndex schema (ScalarFunction fn xargs rt) =
        NewFunction funcs (L fn) (NewFieldType TypeTiny)
          (map (\<lambda>arg. fst (EvaluateExprWithNull funcs GetIndex schema arg)) xargs)"
    by (simp add: args_all_ok)
  moreover from a have "NewFunction funcs (L fn) (NewFieldType TypeTiny)
          (map (\<lambda>arg. fst (EvaluateExprWithNull funcs GetIndex schema arg)) xargs) = (NilExpr, Some err)"
    by (auto simp: NewFunction_def split: option.splits if_splits)
  ultimately show "EvaluateExprWithNull funcs GetIndex schema (ScalarFunction fn xargs rt) = (NilExpr, Some err)"
    by simp
next
  assume "i < length xargs \<and>
    (\<forall>j<i. snd (EvaluateExprWithNull funcs GetIndex schema (xargs ! j)) = None) \<and>
    snd (EvaluateExprWithNull funcs GetIndex schema (xargs ! i)) = Some err"
  then have "EvaluateExprWithNull_args funcs GetIndex schema xargs = ([], Some err)"
    using args_first_error [of i xargs funcs GetIndex schema err] by blast
  then show "EvaluateExprWithNull funcs GetIndex schema (ScalarFunction fn xargs rt) = (NilExpr, Some err)"
    by simp
qed

theorem C7_scalar_function_null_propagation_witness:
  "EvaluateExprWithNull logic_funcs example_GetIndex [colA]
     (ScalarFunction (NewCIStr AndAnd) [Column colA, Column colB] NilFieldType) =
     (ScalarFunction (NewCIStr AndAnd)
        [Constant \<lparr>Value = KindNull, RetType = NilFieldType\<rparr>, Column colB]
        (NewFieldType TypeTiny), None) \<and>
   EvaluateExprWithNull logic_funcs example_GetIndex [colA]
     (ScalarFunction (NewCIStr ''plus'') [Column colA, Column colB] NilFieldType) =
     (NilExpr, Some (ErrFunctionNotExists ''plus'')) \<and>
   EvaluateExprWithNull logic_funcs example_GetIndex [colA]
     (ScalarFunction (NewCIStr AndAnd)
        [Column colB, ScalarFunction (NewCIStr ''plus'') [] NilFieldType] NilFieldType) =
     (NilExpr, Some (ErrFunctionNotExists ''plus''))"
proof -
  let ?E = "EvaluateExprWithNull logic_funcs example_GetIndex [colA]"
  let ?null = "Constant \<lparr>Value = KindNull, RetType = NilFieldType\<rparr>"
  have names: "L (NewCIStr AndAnd) = AndAnd" "L (NewCIStr ''plus'') = ''plus''"
    by (simp_all add: NewCIStr_def ToLower_def AndAnd_def)
  have plus: "logic_funcs ''plus'' = None"
    by (simp add: logic_funcs_def AndAnd_def OrOr_def)
  have a: "?E (Column colA) = (?null, None)" and b: "?E (Column colB) = (Column colB, None)"
    using example_GetIndex_values by simp_all
  have p: "?E (ScalarFunction (NewCIStr ''plus'') [] NilFieldType) =
      (NilExpr, Some (ErrFunctionNotExists ''plus''))"
    by (simp add: names NewFunction_def plus)
  have ok: "\<forall>arg\<in>set [Column colA, Column colB]. snd (?E arg) = None"
    using a b by simp
  have 1: "?E (ScalarFunction (NewCIStr AndAnd) [Column colA, Column colB] NilFieldType) =
      (ScalarFunction (NewCIStr AndAnd) [?null, Column colB] (NewFieldType TypeTiny), None)"
    using C7_scalar_function_null_propagation
      [of "[Column colA, Column colB]" logic_funcs example_GetIndex "[colA]" "NewCIStr AndAnd"
          NilFieldType] ok a b
    by (simp add: names NewFunction_binary [OF logic_funcs_binary(1)])
  have bad: "snd (NewFunction logic_funcs (L (NewCIStr ''plus'')) (NewFieldType TypeTiny)
      (map (\<lambda>arg. fst (?E arg)) [Column colA, Column colB])) = Some (ErrFunctionNotExists ''plus'')"
    by (simp add: names NewFunction_def plus)
  have 2: "?E (ScalarFunction (NewCIStr ''plus'') [Column colA, Column colB] NilFieldType) =
      (NilExpr, Some (ErrFunctionNotExists ''plus''))"
    using C7_scalar_function_null_propagation
      [of "[Column colA, Column colB]" logic_funcs example_GetIndex "[colA]" "NewCIStr ''plus''"
          NilFieldType _ "ErrFunctionNotExists ''plus''"] ok bad
    by blast
  let ?xs = "[Column colB, ScalarFunction (NewCIStr ''plus'') [] NilFieldType]"
  have i: "(1::nat) < length ?xs" by simp
  have before: "\<forall>j<(1::nat). snd (?E (?xs ! j)) = None" using b by simp
  have at: "snd (?E (?xs ! 1)) = Some (ErrFunctionNotExists ''plus'')" using p by simp
  have 3: "?E (ScalarFunction (NewCIStr AndAnd) ?xs NilFieldType) =
      (NilExpr, Some (ErrFunctionNotExists ''plus''))"
    using C7_scalar_function_null_propagation
      [of ?xs logic_funcs example_GetIndex "[colA]" "NewCIStr AndAnd"
          NilFieldType _ "ErrFunctionNotExists ''plus''" 1] i before at
    by blast
  from 1 2 3 show ?thesis by blast
qed

section \<open>Coercion to a boolean\<close>

text \<open>
  C8: \<^verbatim>\<open>EvalBool\<close> returns false with the error when the evaluation returns an error;
  false and no error when the value is null; false with the error when the coercion of a
  non-null value returns an error; and otherwise, with no error, true exactly when the coerced
  value is not 0.
\<close>

theorem C8_eval_bool:
  "(Eval colEval funcEval expr row ctx = (data, Some err) \<longrightarrow>
      EvalBool colEval funcEval ToBool expr row ctx = (False, Some err)) \<and>
   (Eval colEval funcEval expr row ctx = (data, None) \<and> IsNull data \<longrightarrow>
      EvalBool colEval funcEval ToBool expr row ctx = (False, None)) \<and>
   (Eval colEval funcEval expr row ctx = (data, None) \<and> \<not> IsNull data \<and>
    ToBool data = (i, Some err) \<longrightarrow>
      EvalBool colEval funcEval ToBool expr row ctx = (False, Some err)) \<and>
   (Eval colEval funcEval expr row ctx = (data, None) \<and> \<not> IsNull data \<and>
    ToBool data = (i, None) \<longrightarrow>
      EvalBool colEval funcEval ToBool expr row ctx = (i \<noteq> 0, None))"
  by (simp add: EvalBool_def)

theorem C8_eval_bool_witness:
  "EvalBool example_colEval example_funcEval example_ToBool (Column colB) [KindInt64 1] () =
     (False, Some (ErrOther ''no such column'')) \<and>
   EvalBool example_colEval example_funcEval example_ToBool
     (Constant \<lparr>Value = KindNull, RetType = NilFieldType\<rparr>) [] () = (False, None) \<and>
   EvalBool example_colEval example_funcEval example_ToBool
     (Constant \<lparr>Value = KindString ''x'', RetType = NilFieldType\<rparr>) [] () =
     (False, Some (ErrOther ''not a number'')) \<and>
   EvalBool example_colEval example_funcEval example_ToBool (Column colA) [KindInt64 5] () =
     (True, None) \<and>
   EvalBool example_colEval example_funcEval example_ToBool (Column colA) [KindInt64 0] () =
     (False, None)"
proof -
  let ?EB = "EvalBool example_colEval example_funcEval example_ToBool"
  let ?Ev = "Eval example_colEval example_funcEval"
  have e1: "?Ev (Column colB) [KindInt64 1] () = (KindNull, Some (ErrOther ''no such column''))"
    by (simp add: example_colEval_def colB_def)
  have e2: "?Ev (Constant \<lparr>Value = KindNull, RetType = NilFieldType\<rparr>) [] () = (KindNull, None)"
      "IsNull KindNull"
    by (simp_all add: Constant_Eval_def IsNull_def)
  have e3: "?Ev (Constant \<lparr>Value = KindString ''x'', RetType = NilFieldType\<rparr>) [] () =
      (KindString ''x'', None)" "\<not> IsNull (KindString ''x'')"
      "example_ToBool (KindString ''x'') = (0, Some (ErrOther ''not a number''))"
    by (simp_all add: Constant_Eval_def IsNull_def example_ToBool_def)
  have e4: "?Ev (Column colA) [KindInt64 5] () = (KindInt64 5, None)" "\<not> IsNull (KindInt64 5)"
      "example_ToBool (KindInt64 5) = (5, None)"
    by (simp_all add: example_colEval_def colA_def IsNull_def example_ToBool_def)
  have e5: "?Ev (Column colA) [KindInt64 0] () = (KindInt64 0, None)" "\<not> IsNull (KindInt64 0)"
      "example_ToBool (KindInt64 0) = (0, None)"
    by (simp_all add: example_colEval_def colA_def IsNull_def example_ToBool_def)
  have 1: "?EB (Column colB) [KindInt64 1] () = (False, Some (ErrOther ''no such column''))"
    using C8_eval_bool [of example_colEval example_funcEval "Column colB" "[KindInt64 1]" "()"
        KindNull "ErrOther ''no such column''" example_ToBool] e1 by blast
  have 2: "?EB (Constant \<lparr>Value = KindNull, RetType = NilFieldType\<rparr>) [] () = (False, None)"
    using C8_eval_bool [of example_colEval example_funcEval
        "Constant \<lparr>Value = KindNull, RetType = NilFieldType\<rparr>" "[]" "()" KindNull _ example_ToBool]
      e2 by blast
  have 3: "?EB (Constant \<lparr>Value = KindString ''x'', RetType = NilFieldType\<rparr>) [] () =
      (False, Some (ErrOther ''not a number''))"
    using C8_eval_bool [of example_colEval example_funcEval
        "Constant \<lparr>Value = KindString ''x'', RetType = NilFieldType\<rparr>" "[]" "()"
        "KindString ''x''" "ErrOther ''not a number''" example_ToBool 0]
      e3 by blast
  have 4: "?EB (Column colA) [KindInt64 5] () = (True, None)"
    using C8_eval_bool [of example_colEval example_funcEval "Column colA" "[KindInt64 5]" "()"
        "KindInt64 5" _ example_ToBool 5] e4 by simp
  have 5: "?EB (Column colA) [KindInt64 0] () = (False, None)"
    using C8_eval_bool [of example_colEval example_funcEval "Column colA" "[KindInt64 0]" "()"
        "KindInt64 0" _ example_ToBool 0] e5 by simp
  from 1 2 3 4 5 show ?thesis by blast
qed

section \<open>The schema of a list of result fields\<close>

lemma loop_step:
  assumes "well_formed_field h fp"
  shows "\<exists>col. column_of_field h fp (int i) col \<and>
           ResultFieldsToSchema_loop h i (fp # rest) schema =
             ResultFieldsToSchema_loop h (i + 1) rest (schema @ [col])"
proof -
  from assms obtain field a ci where f: "fp = Some field" "ResultField.Column field = Some a" "h a = Some ci"
    and t: "L (TableAsName field) \<noteq> '''' \<or> Table field \<noteq> None"
    by (auto simp: well_formed_field_def split: option.splits)
  obtain cn where cn: "field_colName h field = Inr cn"
      "cn = (if L (ColumnAsName field) = '''' then ColumnInfo.Name ci else ColumnAsName field)"
    using f by (simp add: field_colName_def)
  define tn where
    "tn = (if L (TableAsName field) = '''' then TableInfo.Name (the (Table field))
           else TableAsName field)"
  have tn: "field_tblName field = Inr tn"
      "L (TableAsName field) = '''' \<longrightarrow> (\<exists>ti. Table field = Some ti \<and> tn = TableInfo.Name ti)"
      "L (TableAsName field) \<noteq> '''' \<longrightarrow> tn = TableAsName field"
    using t by (auto simp: field_tblName_def tn_def Let_def)
  let ?col = "\<lparr>ColName = cn, TblName = tn, DBName = ResultField.DBName field,
                RetType = FieldTypeOf a, Position = int i\<rparr>"
  have "column_of_field h fp (int i) ?col"
    unfolding column_of_field_def using f cn(2) tn(2,3) by simp
  moreover have "ResultFieldsToSchema_loop h i (fp # rest) schema =
             ResultFieldsToSchema_loop h (i + 1) rest (schema @ [?col])"
    using f cn(1) tn(1) by simp
  ultimately show ?thesis by blast
qed

lemma loop_total:
  "\<forall>fp\<in>set fs. well_formed_field h fp \<Longrightarrow>
   \<exists>cols. ResultFieldsToSchema_loop h i fs schema = Inr (schema @ cols) \<and>
     length cols = length fs \<and>
     (\<forall>k<length fs. column_of_field h (fs ! k) (int (i + k)) (cols ! k))"
proof (induction fs arbitrary: i schema)
  case Nil
  then show ?case by simp
next
  case (Cons fp rest)
  from Cons.prems have wf: "well_formed_field h fp" and wfr: "\<forall>fp\<in>set rest. well_formed_field h fp"
    by simp_all
  from loop_step [OF wf, of i rest schema] obtain col where
    col: "column_of_field h fp (int i) col"
    and step: "ResultFieldsToSchema_loop h i (fp # rest) schema =
             ResultFieldsToSchema_loop h (i + 1) rest (schema @ [col])"
    by blast
  from Cons.IH [OF wfr, of "i + 1" "schema @ [col]"] obtain cols where
    cols: "ResultFieldsToSchema_loop h (i + 1) rest (schema @ [col]) = Inr ((schema @ [col]) @ cols)"
      "length cols = length rest"
      "\<forall>k<length rest. column_of_field h (rest ! k) (int (i + 1 + k)) (cols ! k)"
    by blast
  have "\<forall>k<length (fp # rest). column_of_field h ((fp # rest) ! k) (int (i + k)) ((col # cols) ! k)"
  proof (intro allI impI)
    fix k assume k: "k < length (fp # rest)"
    show "column_of_field h ((fp # rest) ! k) (int (i + k)) ((col # cols) ! k)"
    proof (cases k)
      case 0
      with col show ?thesis by simp
    next
      case (Suc k')
      with k cols(3) show ?thesis by simp
    qed
  qed
  with step cols(1,2) show ?case
    by (intro exI [of _ "col # cols"]) simp
qed

lemma example_fields_well_formed:
  "well_formed_field example_store (Some field1)" "well_formed_field example_store (Some field2)"
  by (simp_all add: well_formed_field_def example_store_def field1_def field2_def NewCIStr_def
      ToLower_def)

text \<open>
  C9: on a list of well-formed result fields \<^verbatim>\<open>ResultFieldsToSchema\<close> returns a schema with
  one Column per field, in the same order. The column name of the i-th Column is the column
  alias of the i-th field when the alias is set and the name of the underlying column
  otherwise; its table name is the table alias when set and the name of the table otherwise;
  its declared type is the address of the type descriptor inside the underlying ColumnInfo, so
  that in every store it reads the descriptor that the ColumnInfo holds there; and its
  Position is i.
\<close>

theorem C9_result_fields_to_schema:
  assumes "\<forall>fp\<in>set fs. well_formed_field h fp"
  shows "\<exists>schema. ResultFieldsToSchema h fs = Inr schema \<and> length schema = length fs \<and>
    (\<forall>i<length fs. \<exists>field a ci.
       fs ! i = Some field \<and> ResultField.Column field = Some a \<and> h a = Some ci \<and>
       ColName (schema ! i) =
         (if L (ColumnAsName field) = '''' then ColumnInfo.Name ci else ColumnAsName field) \<and>
       (L (TableAsName field) = '''' \<longrightarrow>
          (\<exists>ti. Table field = Some ti \<and> TblName (schema ! i) = TableInfo.Name ti)) \<and>
       (L (TableAsName field) \<noteq> '''' \<longrightarrow> TblName (schema ! i) = TableAsName field) \<and>
       Column.RetType (schema ! i) = FieldTypeOf a \<and>
       (\<forall>h'. load_type h' (Column.RetType (schema ! i)) = map_option ColumnInfo.FieldType (h' a)) \<and>
       Position (schema ! i) = int i)"
proof -
  from loop_total [OF assms, of 0 "[]"] obtain cols where
    cols: "ResultFieldsToSchema_loop h 0 fs [] = Inr cols" "length cols = length fs"
      "\<forall>k<length fs. column_of_field h (fs ! k) (int k) (cols ! k)"
    by auto
  have "\<exists>field a ci.
       fs ! i = Some field \<and> ResultField.Column field = Some a \<and> h a = Some ci \<and>
       ColName (cols ! i) =
         (if L (ColumnAsName field) = '''' then ColumnInfo.Name ci else ColumnAsName field) \<and>
       (L (TableAsName field) = '''' \<longrightarrow>
          (\<exists>ti. Table field = Some ti \<and> TblName (cols ! i) = TableInfo.Name ti)) \<and>
       (L (TableAsName field) \<noteq> '''' \<longrightarrow> TblName (cols ! i) = TableAsName field) \<and>
       Column.RetType (cols ! i) = FieldTypeOf a \<and>
       (\<forall>h'. load_type h' (Column.RetType (cols ! i)) = map_option ColumnInfo.FieldType (h' a)) \<and>
       Position (cols ! i) = int i" if "i < length fs" for i
  proof -
    from cols(3) that have "column_of_field h (fs ! i) (int i) (cols ! i)" by blast
    then obtain field a ci where
      "fs ! i = Some field" "ResultField.Column field = Some a" "h a = Some ci"
      "ColName (cols ! i) =
         (if L (ColumnAsName field) = '''' then ColumnInfo.Name ci else ColumnAsName field)"
      "L (TableAsName field) = '''' \<longrightarrow>
          (\<exists>ti. Table field = Some ti \<and> TblName (cols ! i) = TableInfo.Name ti)"
      "L (TableAsName field) \<noteq> '''' \<longrightarrow> TblName (cols ! i) = TableAsName field"
      "Column.RetType (cols ! i) = FieldTypeOf a"
      "Position (cols ! i) = int i"
      unfolding column_of_field_def by blast
    then show ?thesis by simp
  qed
  with cols(1,2) show ?thesis
    unfolding ResultFieldsToSchema_def by blast
qed

theorem C9_result_fields_to_schema_witness:
  "well_formed_field example_store (Some field1) \<and>
   well_formed_field example_store (Some field2) \<and>
   (\<exists>schema. ResultFieldsToSchema example_store [Some field1, Some field2] = Inr schema \<and>
      length schema = 2 \<and>
      ColName (schema ! 0) = NewCIStr ''c1'' \<and> TblName (schema ! 0) = NewCIStr ''t1'' \<and>
      ColName (schema ! 1) = NewCIStr ''c2'' \<and> TblName (schema ! 1) = NewCIStr ''t2'' \<and>
      Column.RetType (schema ! 0) = FieldTypeOf 10 \<and>
      Column.RetType (schema ! 1) = FieldTypeOf 10 \<and>
      Position (schema ! 0) = 0 \<and> Position (schema ! 1) = 1)"
proof -
  let ?fs = "[Some field1, Some field2]"
  have wf: "\<forall>fp\<in>set ?fs. well_formed_field example_store fp"
    using example_fields_well_formed by simp
  from C9_result_fields_to_schema [OF wf] obtain schema where
    r: "ResultFieldsToSchema example_store ?fs = Inr schema" "length schema = length ?fs"
    and each: "\<And>i. i < length ?fs \<Longrightarrow> \<exists>field a ci.
       ?fs ! i = Some field \<and> ResultField.Column field = Some a \<and> example_store a = Some ci \<and>
       ColName (schema ! i) =
         (if L (ColumnAsName field) = '''' then ColumnInfo.Name ci else ColumnAsName field) \<and>
       (L (TableAsName field) = '''' \<longrightarrow>
          (\<exists>ti. Table field = Some ti \<and> TblName (schema ! i) = TableInfo.Name ti)) \<and>
       (L (TableAsName field) \<noteq> '''' \<longrightarrow> TblName (schema ! i) = TableAsName field) \<and>
       Column.RetType (schema ! i) = FieldTypeOf a \<and>
       (\<forall>h'. load_type h' (Column.RetType (schema ! i)) = map_option ColumnInfo.FieldType (h' a)) \<and>
       Position (schema ! i) = int i"
    by blast
  from each [of 0] have 0:
    "ColName (schema ! 0) = NewCIStr ''c1''" "TblName (schema ! 0) = NewCIStr ''t1''"
    "Column.RetType (schema ! 0) = FieldTypeOf 10" "Position (schema ! 0) = 0"
    by (auto simp: field1_def example_store_def NewCIStr_def ToLower_def)
  from each [of 1] have 1:
    "ColName (schema ! 1) = NewCIStr ''c2''" "TblName (schema ! 1) = NewCIStr ''t2''"
    "Column.RetType (schema ! 1) = FieldTypeOf 10" "Position (schema ! 1) = 1"
    by (auto simp: field2_def example_store_def NewCIStr_def ToLower_def)
  from r 0 1 example_fields_well_formed show ?thesis by simp
qed

end
